theory Spec2Isabelle
  imports Complex_Main "HOL-Library.Word" "HOL-Library.Sublist" "HOL-Library.Log_Nat"
begin

section \<open>The menu of input\_graphics\_sound\_menu.hpp\<close>

text \<open>
  A shallow embedding of the class \<^verbatim>\<open>InputGraphicsSoundMenu\<close>. The object and the
  collaborators it holds by reference (sound system, configuration, window, logger, standard
  output) are one record that every callback takes and returns. A callback that can throw
  returns the exception beside the state, since what it did before the throw stays done.
  Rectangles, grids, colours and the z offset of a screen are left out: no callback and no
  lookup reads them. The two functions that compute the pointer position are embedded over
  the rational numbers, with the rounding of \<^verbatim>\<open>double\<close> and \<^verbatim>\<open>float\<close> written out.
\<close>

subsection \<open>Data\<close>

datatype UIState =
  MAIN_MENU
| SETTINGS_MENU
| PROGRAM_SETTINGS
| INPUT_SETTINGS
| SOUND_SETTINGS
| GRAPHICS_SETTINGS
| ADVANCED_SETTINGS
| ABOUT

datatype SoundType = UI_HOVER | UI_CLICK

datatype menu_error =
  Invalid_argument string
| Out_of_range string

record menu =
  enabled :: bool
  curr_state :: UIState
  sound_queue :: "SoundType list"
  config_values :: "string \<times> string \<rightharpoonup> string"
  config_applied :: nat
  config_saved :: nat
  window_should_close :: bool
  logged_warnings :: "string list"
  logged_infos :: "string list"
  stdout :: "string list"

type_synonym outcome = "menu_error option \<times> menu"

type_synonym callback = "menu \<Rightarrow> outcome"

type_synonym string_callback = "string \<Rightarrow> menu \<Rightarrow> outcome"

text \<open>A lambda of the source that has no throw in it, as a callback.\<close>

definition returns :: "(menu \<Rightarrow> menu) \<Rightarrow> callback" where
  "returns f m = (None, f m)"

text \<open>
  The widgets a screen is built from, in the order of the \<^verbatim>\<open>add_...\<close> calls, each with
  the callbacks, label, initial text, selected index and options it was given.
\<close>

datatype element =
  Textbox string
| Clickable_textbox callback callback string
| Input_box string_callback string
| Dropdown callback callback int "string list" string_callback string_callback
| Colored_rectangle

type_synonym UI = "element list"

subsection \<open>Collaborators\<close>

text \<open>
  The sound system, the configuration store, the window, the logger and the standard output
  belong to other modules; the source only calls them. Each call is modelled by the effect
  the spec gives its interface, on the part of the record that stands for the collaborator.
\<close>

text \<open>Modelled from the spec: \<^verbatim>\<open>SoundSystem::queue_sound\<close>, "fire-and-forget": the sound
  joins the queue.\<close>

definition queue_sound :: "SoundType \<Rightarrow> menu \<Rightarrow> menu" where
  "queue_sound t m = m\<lparr>sound_queue := sound_queue m @ [t]\<rparr>"

text \<open>Modelled from the spec: \<^verbatim>\<open>Configuration::get_value(section, key)\<close>, an optional
  string.\<close>

definition get_value :: "(string \<times> string \<rightharpoonup> string) \<Rightarrow> string \<Rightarrow> string \<Rightarrow> string option" where
  "get_value cfg section k = cfg (section, k)"

text \<open>\<^verbatim>\<open>std::optional::value_or\<close>.\<close>

definition value_or :: "'a option \<Rightarrow> 'a \<Rightarrow> 'a" where
  "value_or v d = (case v of None \<Rightarrow> d | Some x \<Rightarrow> x)"

text \<open>Modelled from the spec: \<^verbatim>\<open>Configuration::set_value(section, key, value)\<close>, "writing a
  key/value into the configuration store".\<close>

definition set_value :: "string \<Rightarrow> string \<Rightarrow> string \<Rightarrow> menu \<Rightarrow> menu" where
  "set_value section k v m = m\<lparr>config_values := (config_values m)((section, k) \<mapsto> v)\<rparr>"

text \<open>Modelled from the spec: \<^verbatim>\<open>Configuration::apply_config_logic\<close>, which runs the registered
  handlers; they act on the window only, and the model counts the requests.\<close>

definition apply_config_logic :: "menu \<Rightarrow> menu" where
  "apply_config_logic m = m\<lparr>config_applied := Suc (config_applied m)\<rparr>"

text \<open>Modelled from the spec: \<^verbatim>\<open>Configuration::save_to_file\<close>; the model counts the
  requests.\<close>

definition save_to_file :: "menu \<Rightarrow> menu" where
  "save_to_file m = m\<lparr>config_saved := Suc (config_saved m)\<rparr>"

text \<open>Modelled from the spec: the window's "request-close operation",
  \<^verbatim>\<open>glfwSetWindowShouldClose\<close>.\<close>

definition glfwSetWindowShouldClose :: "bool \<Rightarrow> menu \<Rightarrow> menu" where
  "glfwSetWindowShouldClose b m = m\<lparr>window_should_close := b\<rparr>"

text \<open>Modelled from the spec: \<^verbatim>\<open>Logger::warn\<close> and \<^verbatim>\<open>Logger::info\<close>, "warnings are
  logged": the formatted line joins the log.\<close>

definition logger_warn :: "string \<Rightarrow> menu \<Rightarrow> menu" where
  "logger_warn line m = m\<lparr>logged_warnings := logged_warnings m @ [line]\<rparr>"

definition logger_info :: "string \<Rightarrow> menu \<Rightarrow> menu" where
  "logger_info line m = m\<lparr>logged_infos := logged_infos m @ [line]\<rparr>"

text \<open>\<^verbatim>\<open>std::cout << contents << std::endl\<close>.\<close>

definition cout_line :: "string \<Rightarrow> menu \<Rightarrow> menu" where
  "cout_line line m = m\<lparr>stdout := stdout m @ [line]\<rparr>"

subsection \<open>Dependencies of a screen and the screens of a frame\<close>

fun get_ui_dependencies :: "UIState \<Rightarrow> UIState list" where
  "get_ui_dependencies MAIN_MENU = []"
| "get_ui_dependencies SETTINGS_MENU = []"
| "get_ui_dependencies PROGRAM_SETTINGS = [SETTINGS_MENU]"
| "get_ui_dependencies INPUT_SETTINGS = [SETTINGS_MENU]"
| "get_ui_dependencies SOUND_SETTINGS = [SETTINGS_MENU]"
| "get_ui_dependencies GRAPHICS_SETTINGS = [SETTINGS_MENU]"
| "get_ui_dependencies ADVANCED_SETTINGS = [SETTINGS_MENU]"
| "get_ui_dependencies ABOUT = []"

text \<open>
  The first loop of \<^verbatim>\<open>process_and_queue_render_menu\<close>: the vector starts as
  \<^verbatim>\<open>{curr_state}\<close> and every dependency is pushed to its back.
\<close>

fun push_back_all :: "'a list \<Rightarrow> 'a list \<Rightarrow> 'a list" where
  "push_back_all acc [] = acc"
| "push_back_all acc (x # xs) = push_back_all (acc @ [x]) xs"

definition uis_to_render :: "UIState \<Rightarrow> UIState list" where
  "uis_to_render s = push_back_all [s] (get_ui_dependencies s)"

subsection \<open>Floating point\<close>

text \<open>
  The pointer position is computed in \<^verbatim>\<open>double\<close> and \<^verbatim>\<open>float\<close>. A finite value of either
  format is the rational number it stands for (the two zeros are one), and every operation
  is the exact operation followed by the rounding of its format: to the nearest value with
  \<open>p\<close> significant bits, a tie going to the even one, with an exponent not below \<open>emin\<close>
  (below it the spacing stays that of \<open>emin\<close>, which gives the subnormal numbers). A result
  whose exponent is above \<open>emax\<close> is an infinity in the machine and \<open>None\<close> here, and so is a
  division by zero, which gives an infinity or a NaN; an operation on \<open>None\<close> is \<open>None\<close>,
  as no operation of the two functions turns an infinity or a NaN into a finite number.
\<close>

definition round_half_even :: "rat \<Rightarrow> int" where
  "round_half_even q =
    (let f = \<lfloor>q\<rfloor>; r = q - of_int f
     in if r < 1 / 2 then f else if 1 / 2 < r then f + 1 else if even f then f else f + 1)"

text \<open>The \<open>e\<close> with \<open>2^e \<le> |x| < 2^(e+1)\<close>, for \<open>x\<close> other than 0.\<close>

definition binary_exponent :: "rat \<Rightarrow> int" where
  "binary_exponent x =
    (if 1 \<le> \<bar>x\<bar> then bitlen \<lfloor>\<bar>x\<bar>\<rfloor> - 1 else - bitlen (\<lceil>1 / \<bar>x\<bar>\<rceil> - 1))"

definition round_format :: "nat \<Rightarrow> int \<Rightarrow> int \<Rightarrow> rat \<Rightarrow> rat option" where
  "round_format p emin emax x =
    (if x = 0 then Some 0
     else let ulp = 2 powi (max (binary_exponent x) emin - int p + 1);
              r = of_int (round_half_even (x / ulp)) * ulp
          in if r \<noteq> 0 \<and> emax < binary_exponent r then None else Some r)"

definition to_double :: "rat \<Rightarrow> rat option" where
  "to_double x = round_format 53 (- 1022) 1023 x"

definition to_float :: "rat \<Rightarrow> rat option" where
  "to_float x = round_format 24 (- 126) 127 x"

subsection \<open>\<^verbatim>\<open>get_ndc_mouse_pos\<close> and \<^verbatim>\<open>aspect_corrected_ndc_mouse_pos\<close>\<close>





subsection \<open>Callbacks shared by the screens\<close>

definition on_hover :: "menu \<Rightarrow> menu" where
  "on_hover m = queue_sound UI_HOVER m"

definition dropdown_on_hover :: "string \<Rightarrow> menu \<Rightarrow> menu" where
  "dropdown_on_hover option m = queue_sound UI_HOVER m"

text \<open>
  \<^verbatim>\<open>on_confirm\<close> is declared with the same body in the about, player, input and graphics
  builders: it prints what was typed.
\<close>

definition on_confirm :: "string \<Rightarrow> menu \<Rightarrow> menu" where
  "on_confirm contents m = cout_line contents m"

subsection \<open>\<^verbatim>\<open>create_main_menu_ui\<close>\<close>

definition on_program_start :: "menu \<Rightarrow> menu" where
  "on_program_start m = (queue_sound UI_CLICK m)\<lparr>enabled := False\<rparr>"

definition on_click_settings :: "menu \<Rightarrow> menu" where
  "on_click_settings m = (queue_sound UI_CLICK m)\<lparr>curr_state := PROGRAM_SETTINGS\<rparr>"

definition on_click_about :: "menu \<Rightarrow> menu" where
  "on_click_about m = (queue_sound UI_CLICK m)\<lparr>curr_state := ABOUT\<rparr>"

definition on_game_quit :: "menu \<Rightarrow> menu" where
  "on_game_quit m = glfwSetWindowShouldClose True (queue_sound UI_CLICK m)"

text \<open>
  \<^verbatim>\<open>on_back_clicked\<close> has this body in \<^verbatim>\<open>create_main_menu_ui\<close>, where no widget gets
  it, and in \<^verbatim>\<open>create_settings_menu_ui\<close>, where the BACK button does.
\<close>

definition on_back_clicked :: "menu \<Rightarrow> menu" where
  "on_back_clicked m = (queue_sound UI_CLICK m)\<lparr>curr_state := MAIN_MENU\<rparr>"

definition create_main_menu_ui :: UI where
  "create_main_menu_ui =
    [Textbox ''Welcome to the program.'',
     Clickable_textbox (returns on_program_start) (returns on_hover) ''RESUME'',
     Clickable_textbox (returns on_click_settings) (returns on_hover) ''SETTINGS'',
     Clickable_textbox (returns on_click_about) (returns on_hover) ''ABOUT'',
     Clickable_textbox (returns on_game_quit) (returns on_hover) ''QUIT'']"

subsection \<open>\<^verbatim>\<open>create_about_ui\<close>\<close>

definition about_on_back_clicked :: "menu \<Rightarrow> menu" where
  "about_on_back_clicked m = m\<lparr>curr_state := MAIN_MENU\<rparr>"

text \<open>The text of the about box goes through a line breaker of another module; it is kept
  here as the source gives it.\<close>

definition create_about_ui :: UI where
  "create_about_ui =
    [Textbox (''this program was created with the toolbox engine, this engine is an open source collection of tools '' @
              ''which come together to form an engine to make games using c++, it's designed for programmers and just '' @
              ''gives you tools to do stuff faster in that realm instead of an all encompassing solution. Learn more '' @
              ''about it at cpptbx.cuppajoeman.com and join the discord.''),
     Clickable_textbox (returns about_on_back_clicked) (returns on_hover) ''back to main menu'']"

subsection \<open>\<^verbatim>\<open>create_settings_menu_ui\<close>\<close>

definition on_apply_clicked :: "menu \<Rightarrow> menu" where
  "on_apply_clicked m = apply_config_logic (queue_sound UI_CLICK m)"

definition on_save_clicked :: "menu \<Rightarrow> menu" where
  "on_save_clicked m = save_to_file (queue_sound UI_CLICK m)"

definition settings_on_click :: "menu \<Rightarrow> menu" where
  "settings_on_click m = queue_sound UI_CLICK m"

definition player_on_click :: "menu \<Rightarrow> menu" where
  "player_on_click m = (queue_sound UI_CLICK m)\<lparr>curr_state := PROGRAM_SETTINGS\<rparr>"

definition input_on_click :: "menu \<Rightarrow> menu" where
  "input_on_click m = (queue_sound UI_CLICK m)\<lparr>curr_state := INPUT_SETTINGS\<rparr>"

definition sound_on_click :: "menu \<Rightarrow> menu" where
  "sound_on_click m = (queue_sound UI_CLICK m)\<lparr>curr_state := SOUND_SETTINGS\<rparr>"

definition graphics_on_click :: "menu \<Rightarrow> menu" where
  "graphics_on_click m = (queue_sound UI_CLICK m)\<lparr>curr_state := GRAPHICS_SETTINGS\<rparr>"

definition network_on_click :: "menu \<Rightarrow> menu" where
  "network_on_click m = (queue_sound UI_CLICK m)\<lparr>curr_state := ADVANCED_SETTINGS\<rparr>"

definition create_settings_menu_ui :: UI where
  "create_settings_menu_ui =
    [Clickable_textbox (returns player_on_click) (returns on_hover) ''player'',
     Clickable_textbox (returns input_on_click) (returns on_hover) ''input'',
     Clickable_textbox (returns sound_on_click) (returns on_hover) ''sound'',
     Clickable_textbox (returns graphics_on_click) (returns on_hover) ''graphics'',
     Clickable_textbox (returns network_on_click) (returns on_hover) ''network'',
     Colored_rectangle,
     Clickable_textbox (returns on_back_clicked) (returns on_hover) ''BACK'',
     Clickable_textbox (returns on_apply_clicked) (returns on_hover) ''APPLY'',
     Clickable_textbox (returns on_save_clicked) (returns on_hover) ''SAVE'']"

subsection \<open>\<^verbatim>\<open>create_player_settings_ui\<close>\<close>

definition username_on_confirm :: "string \<Rightarrow> menu \<Rightarrow> menu" where
  "username_on_confirm s m = m"

definition create_player_settings_ui :: UI where
  "create_player_settings_ui =
    [Textbox ''username'',
     Input_box (\<lambda>contents. returns (on_confirm contents)) ''username'',
     Textbox ''crosshair'']"

subsection \<open>\<^verbatim>\<open>create_input_settings_ui\<close>\<close>

definition sens_on_click :: "string \<Rightarrow> menu \<Rightarrow> menu" where
  "sens_on_click option m = set_value ''input'' ''mouse_sensitivity'' option (queue_sound UI_CLICK m)"

text \<open>
  \<^verbatim>\<open>InputState::is_valid_key_string\<close> belongs to another module: it is the parameter
  \<open>is_valid_key_string\<close> of the closure and of the builder.
\<close>

definition create_key_on_confirm_function ::
  "(string \<Rightarrow> bool) \<Rightarrow> string \<Rightarrow> string \<Rightarrow> menu \<Rightarrow> menu" where
  "create_key_on_confirm_function is_valid_key_string key_str input_value m =
    (if is_valid_key_string input_value
     then queue_sound UI_CLICK (set_value ''input'' key_str input_value m)
     else logger_warn
            (input_value @ '' is not a valid key string, not setting it in the config, use a proper value.'')
            m)"

definition create_input_settings_ui ::
  "(string \<Rightarrow> bool) \<Rightarrow> (string \<times> string \<rightharpoonup> string) \<Rightarrow> UI" where
  "create_input_settings_ui is_valid_key_string configuration =
    [Textbox ''mouse sensitivity'',
     Input_box (\<lambda>option. returns (sens_on_click option)) ''1'',
     Textbox ''fire'',
     Input_box (\<lambda>contents. returns (on_confirm contents)) ''lmb'',
     Textbox ''jump'',
     Input_box (\<lambda>contents. returns (on_confirm contents)) ''space'',
     Textbox ''move forward'',
     Input_box (\<lambda>v. returns (create_key_on_confirm_function is_valid_key_string ''forward'' v))
       (value_or (get_value configuration ''input'' ''forward'') ''w''),
     Textbox ''move backward'',
     Input_box (\<lambda>v. returns (create_key_on_confirm_function is_valid_key_string ''back'' v)) ''s'',
     Textbox ''move left'',
     Input_box (\<lambda>v. returns (create_key_on_confirm_function is_valid_key_string ''left'' v)) ''a'',
     Textbox ''move right'',
     Input_box (\<lambda>v. returns (create_key_on_confirm_function is_valid_key_string ''right'' v)) ''d'',
     Textbox ''move up'',
     Input_box (\<lambda>v. returns (create_key_on_confirm_function is_valid_key_string ''left'' v)) '' '',
     Textbox ''move down'',
     Input_box (\<lambda>v. returns (create_key_on_confirm_function is_valid_key_string ''down'' v))
       ''left_shift'',
     Textbox ''slow move'',
     Input_box (\<lambda>v. returns (create_key_on_confirm_function is_valid_key_string ''slow_move'' v))
       ''left_control'',
     Textbox ''fast move'',
     Input_box (\<lambda>v. returns (create_key_on_confirm_function is_valid_key_string ''fast_move'' v))
       ''tab'']"

subsection \<open>\<^verbatim>\<open>create_sound_settings_ui\<close> and \<^verbatim>\<open>create_advanced_settings_ui\<close>\<close>

definition create_sound_settings_ui :: UI where
  "create_sound_settings_ui = [Textbox ''volume'']"

definition create_advanced_settings_ui :: UI where
  "create_advanced_settings_ui =
    [Textbox ''display tick time expendature'',
     Textbox ''display current ping'',
     Textbox ''display movement dial'']"

subsection \<open>\<^verbatim>\<open>get_index_or_default\<close>\<close>

text \<open>
  \<^verbatim>\<open>std::find\<close> over a vector: the position of the first element equal to the value, or the
  length of the vector (the end iterator) when there is none.
\<close>

fun std_find :: "'a list \<Rightarrow> 'a \<Rightarrow> nat" where
  "std_find [] v = 0"
| "std_find (x # xs) v = (if x = v then 0 else Suc (std_find xs v))"

text \<open>The distance is a \<^verbatim>\<open>ptrdiff_t\<close> and the function returns \<^verbatim>\<open>int\<close>: the narrowing to
  32 bits is written out.\<close>

definition get_index_or_default :: "string \<Rightarrow> string list \<Rightarrow> int" where
  "get_index_or_default v vec =
    (let it = std_find vec v
     in if it \<noteq> length vec then sint (word_of_nat it :: 32 word) else 0)"

subsection \<open>\<^verbatim>\<open>std::stoi\<close> and \<^verbatim>\<open>std::string::find\<close>\<close>

text \<open>
  The library functions the resolution callback calls. \<^verbatim>\<open>std::stoi\<close> in base 10 skips
  leading white space, takes an optional sign and then the longest run of decimal digits,
  and ignores what follows; it throws \<^verbatim>\<open>std::invalid_argument\<close> when there is no digit and
  \<^verbatim>\<open>std::out_of_range\<close> when the number does not fit an \<^verbatim>\<open>int\<close>.
\<close>

definition isspace :: "char \<Rightarrow> bool" where
  "isspace c = (c = CHR '' '' \<or> c = CHR 0x09 \<or> c = CHR 0x0A \<or> c = CHR 0x0B \<or> c = CHR 0x0C
                \<or> c = CHR 0x0D)"

definition isdigit :: "char \<Rightarrow> bool" where
  "isdigit c = ((48::nat) \<le> of_char c \<and> of_char c \<le> (57::nat))"

definition digits_value :: "string \<Rightarrow> nat" where
  "digits_value ds = foldl (\<lambda>acc c. 10 * acc + (of_char c - 48)) 0 ds"

definition stoi :: "string \<Rightarrow> menu_error + int" where
  "stoi str =
    (let s1 = dropWhile isspace str;
         negative = (case s1 of [] \<Rightarrow> False | c # _ \<Rightarrow> c = CHR ''-'');
         s2 = (case s1 of [] \<Rightarrow> [] | c # cs \<Rightarrow> if c = CHR ''-'' \<or> c = CHR ''+'' then cs else s1);
         ds = takeWhile isdigit s2
     in if ds = [] then Inl (Invalid_argument ''stoi'')
        else let v = (if negative then - int (digits_value ds) else int (digits_value ds))
             in if v < - 2147483648 \<or> 2147483647 < v then Inl (Out_of_range ''stoi'')
                else Inr v)"

text \<open>\<^verbatim>\<open>std::string::find(char)\<close>: the first position of the character, \<^verbatim>\<open>npos\<close> as
  \<open>None\<close>.\<close>

fun string_find :: "string \<Rightarrow> char \<Rightarrow> nat option" where
  "string_find [] c = None"
| "string_find (y # ys) c = (if y = c then Some 0 else map_option Suc (string_find ys c))"

subsection \<open>\<^verbatim>\<open>create_graphics_settings_ui\<close>\<close>

definition graphics_on_click_settings :: "menu \<Rightarrow> menu" where
  "graphics_on_click_settings m = m\<lparr>curr_state := PROGRAM_SETTINGS\<rparr>"

definition empty_on_click :: "string \<Rightarrow> menu \<Rightarrow> menu" where
  "empty_on_click option m = cout_line option m"

text \<open>
  The sound is queued first; a throw of \<^verbatim>\<open>std::stoi\<close> or the throw of the else branch
  leaves the callback before \<^verbatim>\<open>set_value\<close>. The two numbers are read and not used.
\<close>

definition resolution_dropdown_on_click :: "string \<Rightarrow> menu \<Rightarrow> outcome" where
  "resolution_dropdown_on_click option m =
    (let m1 = queue_sound UI_CLICK m
     in case string_find option (CHR ''x'') of
          Some x_pos \<Rightarrow>
            (case stoi (take x_pos option) of
               Inl e \<Rightarrow> (Some e, m1)
             | Inr width \<Rightarrow>
                 (case stoi (drop (x_pos + 1) option) of
                    Inl e \<Rightarrow> (Some e, m1)
                  | Inr height \<Rightarrow> (None, set_value ''graphics'' ''resolution'' option m1)))
        | None \<Rightarrow>
            (Some (Invalid_argument ''Input string is not in the correct format (e.g. 1280x960)''),
             m1))"

definition fullscreen_on_click :: "string \<Rightarrow> menu \<Rightarrow> menu" where
  "fullscreen_on_click option m = set_value ''graphics'' ''fullscreen'' option (queue_sound UI_CLICK m)"

definition wireframe_on_click :: "string \<Rightarrow> menu \<Rightarrow> menu" where
  "wireframe_on_click option m = set_value ''graphics'' ''wireframe'' option (queue_sound UI_CLICK m)"

definition fov_on_confirm :: "string \<Rightarrow> menu \<Rightarrow> menu" where
  "fov_on_confirm option m = set_value ''graphics'' ''field_of_view'' option m"

definition max_fps_on_confirm :: "string \<Rightarrow> menu \<Rightarrow> menu" where
  "max_fps_on_confirm option m = set_value ''graphics'' ''max_fps'' option m"

definition show_fps_on_click :: "string \<Rightarrow> menu \<Rightarrow> menu" where
  "show_fps_on_click option m = set_value ''graphics'' ''show_fps'' option m"

definition show_pos_on_click :: "string \<Rightarrow> menu \<Rightarrow> menu" where
  "show_pos_on_click option m = set_value ''graphics'' ''show_pos'' option m"

definition on_off_options :: "string list" where
  "on_off_options = [''on'', ''off'']"

text \<open>
  \<^verbatim>\<open>get_available_resolutions\<close> belongs to another module and is a parameter. The variable
  \<^verbatim>\<open>dropdown_option_idx\<close> is assigned three times, before the resolution, the fullscreen and
  the wireframe dropdown; the show fps and show pos dropdowns are given the variable as the
  third assignment left it.
\<close>

definition create_graphics_settings_ui ::
  "(string \<Rightarrow> string list) \<Rightarrow> (string \<times> string \<rightharpoonup> string) \<Rightarrow> UI" where
  "create_graphics_settings_ui get_available_resolutions configuration =
    (let resolutions = get_available_resolutions ''16:9'';
         resolutions = (if resolutions = [] then [''1920x1080''] else resolutions);
         options = resolutions;
         dropdown_option_idx1 =
           get_index_or_default
             (value_or (get_value configuration ''graphics'' ''resolution'') ''1280x720'') options;
         dropdown_option_idx2 =
           get_index_or_default
             (value_or (get_value configuration ''graphics'' ''fullscreen'') ''off'') on_off_options;
         dropdown_option_idx3 =
           get_index_or_default
             (value_or (get_value configuration ''graphics'' ''wireframe'') ''off'') on_off_options
     in [Textbox ''resolution'',
         Dropdown (returns graphics_on_click_settings) (returns on_hover) dropdown_option_idx1
           options resolution_dropdown_on_click (\<lambda>option. returns (dropdown_on_hover option)),
         Textbox ''fullscreen'',
         Dropdown (returns graphics_on_click_settings) (returns on_hover) dropdown_option_idx2
           on_off_options (\<lambda>option. returns (fullscreen_on_click option))
           (\<lambda>option. returns (dropdown_on_hover option)),
         Textbox ''wireframe'',
         Dropdown (returns graphics_on_click_settings) (returns on_hover) dropdown_option_idx3
           on_off_options (\<lambda>option. returns (wireframe_on_click option))
           (\<lambda>option. returns (dropdown_on_hover option)),
         Textbox ''field of view'',
         Input_box (\<lambda>option. returns (fov_on_confirm option))
           (value_or (get_value configuration ''graphics'' ''field_of_view'')
              ''degrees (30-160 limit)''),
         Textbox ''max fps'',
         Input_box (\<lambda>option. returns (max_fps_on_confirm option))
           (value_or (get_value configuration ''graphics'' ''max_fps'') ''120''),
         Textbox ''show fps'',
         Dropdown (returns graphics_on_click_settings) (returns on_hover) dropdown_option_idx3
           on_off_options (\<lambda>option. returns (show_fps_on_click option))
           (\<lambda>option. returns (dropdown_on_hover option)),
         Textbox ''show pos'',
         Dropdown (returns graphics_on_click_settings) (returns on_hover) dropdown_option_idx3
           on_off_options (\<lambda>option. returns (show_pos_on_click option))
           (\<lambda>option. returns (dropdown_on_hover option))])"

subsection \<open>The registry and the constructor\<close>

text \<open>
  \<^verbatim>\<open>game_state_to_ui\<close>, a \<^verbatim>\<open>std::map\<close> from state to screen, with the screens the
  constructor's initialiser list builds. The builders read the configuration as it is at
  construction.
\<close>

definition game_state_to_ui ::
  "(string \<Rightarrow> bool) \<Rightarrow> (string \<Rightarrow> string list) \<Rightarrow> (string \<times> string \<rightharpoonup> string)
   \<Rightarrow> UIState \<rightharpoonup> UI" where
  "game_state_to_ui is_valid_key_string get_available_resolutions configuration =
    map_of
      [(MAIN_MENU, create_main_menu_ui),
       (ABOUT, create_about_ui),
       (SETTINGS_MENU, create_settings_menu_ui),
       (PROGRAM_SETTINGS, create_player_settings_ui),
       (INPUT_SETTINGS, create_input_settings_ui is_valid_key_string configuration),
       (SOUND_SETTINGS, create_sound_settings_ui),
       (GRAPHICS_SETTINGS, create_graphics_settings_ui get_available_resolutions configuration),
       (ADVANCED_SETTINGS, create_advanced_settings_ui)]"

text \<open>
  The constructor: the member initialisers set \<^verbatim>\<open>enabled\<close> and \<^verbatim>\<open>curr_state\<close>, the body
  registers three handlers that act on the window, asks the configuration to apply itself
  and logs a line.
\<close>

definition InputGraphicsSoundMenu :: "menu \<Rightarrow> menu" where
  "InputGraphicsSoundMenu w =
    logger_info ''successfully initialized''
      (apply_config_logic (w\<lparr>enabled := True, curr_state := MAIN_MENU\<rparr>))"

subsection \<open>Processing the screens of a frame\<close>

text \<open>
  What the user can do to a widget in a frame: click it, hover over it, confirm a text in an
  input box, choose an option of a dropdown or hover over one.
\<close>

datatype interaction =
  Click
| Hover
| Confirm string
| Choose string
| Hover_option string

text \<open>
  Modelled from the spec: the widget classes of the UI module, which hold the callbacks
  given to \<^verbatim>\<open>add_clickable_textbox\<close>, \<^verbatim>\<open>add_input_box\<close> and \<^verbatim>\<open>add_dropdown\<close>: a button
  has a "callback pair for click/hover", an input box a "confirm callback invoked when the
  user commits edited text", a dropdown a "click callback receiving the chosen option
  string, and a separate hover callback". A widget without a callback for the interaction
  does nothing.
\<close>

fun run_callback :: "element \<Rightarrow> interaction \<Rightarrow> callback" where
  "run_callback (Clickable_textbox on_click on_hov label) Click = on_click"
| "run_callback (Clickable_textbox on_click on_hov label) Hover = on_hov"
| "run_callback (Input_box on_conf text) (Confirm contents) = on_conf contents"
| "run_callback (Dropdown on_click on_hov idx options dd_on_click dd_on_hover) Click = on_click"
| "run_callback (Dropdown on_click on_hov idx options dd_on_click dd_on_hover) Hover = on_hov"
| "run_callback (Dropdown on_click on_hov idx options dd_on_click dd_on_hover) (Choose option) =
     dd_on_click option"
| "run_callback (Dropdown on_click on_hov idx options dd_on_click dd_on_hover) (Hover_option option) =
     dd_on_hover option"
| "run_callback _ _ = (\<lambda>m. (None, m))"

text \<open>
  Modelled from the spec: \<^verbatim>\<open>process_and_queue_render_ui\<close>, the entry point of the render
  suite, "performing both interaction-state update and draw-command enqueue" for one
  screen. From the pointer and the keys it decides which widgets of the screen are
  interacted with; that decision is the list of positions and interactions given here, and
  the callbacks run in that order. An exception of a callback leaves the call.
\<close>

fun process_and_queue_render_ui :: "UI \<Rightarrow> (nat \<times> interaction) list \<Rightarrow> menu \<Rightarrow> outcome" where
  "process_and_queue_render_ui ui [] m = (None, m)"
| "process_and_queue_render_ui ui ((i, a) # rest) m =
    (if i < length ui
     then (case run_callback (ui ! i) a m of
             (Some e, m') \<Rightarrow> (Some e, m')
           | (None, m') \<Rightarrow> process_and_queue_render_ui ui rest m')
     else process_and_queue_render_ui ui rest m)"

text \<open>
  The second loop of \<^verbatim>\<open>process_and_queue_render_menu\<close>, over the vector built by the first:
  a state that the registry does not hold is skipped, the screen of any other is handed to
  \<^verbatim>\<open>process_and_queue_render_ui\<close>. The first component of the result lists the states
  whose screens were handed over, in the order of the calls. The pointer position that the
  source computes before the loops, \<open>acnmp\<close> above, is an argument of the external call
  and is part of what \<open>interactions\<close> stands for.
\<close>

fun process_screens ::
  "(UIState \<rightharpoonup> UI) \<Rightarrow> (UIState \<Rightarrow> (nat \<times> interaction) list) \<Rightarrow> UIState list \<Rightarrow> menu
   \<Rightarrow> UIState list \<times> outcome" where
  "process_screens registry interactions [] m = ([], (None, m))"
| "process_screens registry interactions (ui_state # rest) m =
    (case registry ui_state of
       None \<Rightarrow> process_screens registry interactions rest m
     | Some selected_ui \<Rightarrow>
         (case process_and_queue_render_ui selected_ui (interactions ui_state) m of
            (Some e, m') \<Rightarrow> ([ui_state], (Some e, m'))
          | (None, m') \<Rightarrow>
              (case process_screens registry interactions rest m' of
                 (calls, r) \<Rightarrow> (ui_state # calls, r))))"

definition process_and_queue_render_menu ::
  "(UIState \<rightharpoonup> UI) \<Rightarrow> (UIState \<Rightarrow> (nat \<times> interaction) list) \<Rightarrow> menu
   \<Rightarrow> UIState list \<times> outcome" where
  "process_and_queue_render_menu registry interactions m =
    process_screens registry interactions (uis_to_render (curr_state m)) m"

subsection \<open>Finding a widget of a screen\<close>

text \<open>
  The properties below name a widget the way a user sees it: a button by its label, an input
  box or a dropdown by the text box that the builder adds right before it.
\<close>

fun on_click_of :: "string \<Rightarrow> UI \<Rightarrow> callback option" where
  "on_click_of l [] = None"
| "on_click_of l (Clickable_textbox on_click on_hov label # es) =
     (if label = l then Some on_click else on_click_of l es)"
| "on_click_of l (_ # es) = on_click_of l es"

fun widget_after :: "string \<Rightarrow> UI \<Rightarrow> element option" where
  "widget_after l [] = None"
| "widget_after l (Textbox t # es) =
     (if t = l then (case es of [] \<Rightarrow> None | e # _ \<Rightarrow> Some e) else widget_after l es)"
| "widget_after l (_ # es) = widget_after l es"

definition click :: "string \<Rightarrow> UI \<Rightarrow> menu \<Rightarrow> outcome option" where
  "click l ui m = map_option (\<lambda>on_click. on_click m) (on_click_of l ui)"

definition confirm :: "string \<Rightarrow> UI \<Rightarrow> string \<Rightarrow> menu \<Rightarrow> outcome option" where
  "confirm l ui contents m =
    (case widget_after l ui of
       Some (Input_box on_conf text) \<Rightarrow> Some (on_conf contents m)
     | _ \<Rightarrow> None)"

definition choose_option :: "string \<Rightarrow> UI \<Rightarrow> string \<Rightarrow> menu \<Rightarrow> outcome option" where
  "choose_option l ui option m =
    (case widget_after l ui of
       Some (Dropdown on_click on_hov idx options dd_on_click dd_on_hover) \<Rightarrow>
         Some (dd_on_click option m)
     | _ \<Rightarrow> None)"

definition dropdown_index :: "string \<Rightarrow> UI \<Rightarrow> int option" where
  "dropdown_index l ui =
    (case widget_after l ui of
       Some (Dropdown on_click on_hov idx options dd_on_click dd_on_hover) \<Rightarrow> Some idx
     | _ \<Rightarrow> None)"

definition dropdown_options :: "string \<Rightarrow> UI \<Rightarrow> string list option" where
  "dropdown_options l ui =
    (case widget_after l ui of
       Some (Dropdown on_click on_hov idx options dd_on_click dd_on_hover) \<Rightarrow> Some options
     | _ \<Rightarrow> None)"

definition button_label :: "element \<Rightarrow> string option" where
  "button_label e =
    (case e of Clickable_textbox on_click on_hov label \<Rightarrow> Some label | _ \<Rightarrow> None)"

subsection \<open>Words of the properties\<close>

text \<open>In a list of calls, \<open>b\<close> comes after the first \<open>a\<close>.\<close>

definition processed_before :: "UIState \<Rightarrow> UIState \<Rightarrow> UIState list \<Rightarrow> bool" where
  "processed_before a b calls = (b \<in> set (tl (dropWhile (\<lambda>u. u \<noteq> a) calls)))"

text \<open>Among the interactions of a frame with the screen of a state there is a click on a
  button labelled RESUME.\<close>

definition resume_clicked ::
  "(UIState \<rightharpoonup> UI) \<Rightarrow> (UIState \<Rightarrow> (nat \<times> interaction) list) \<Rightarrow> UIState \<Rightarrow> bool" where
  "resume_clicked registry acts ui_state =
    (case registry ui_state of
       None \<Rightarrow> False
     | Some ui \<Rightarrow>
         list_ex (\<lambda>(i, a). a = Click \<and> i < length ui \<and> button_label (ui ! i) = Some ''RESUME'')
           (acts ui_state))"

subsection \<open>Example values\<close>

text \<open>
  A world in which nothing has happened yet, a configuration as a saved file could hold it,
  and a key validity check that knows four keys. The closed theorems below run the model
  on them.
\<close>

definition empty_world :: menu where
  "empty_world =
    \<lparr>enabled = False, curr_state = ABOUT, sound_queue = [], config_values = Map.empty,
     config_applied = 0, config_saved = 0, window_should_close = False, logged_warnings = [],
     logged_infos = [], stdout = []\<rparr>"

definition wireframe_on_show_fps_off :: "string \<times> string \<rightharpoonup> string" where
  "wireframe_on_show_fps_off =
    [(''graphics'', ''wireframe'') \<mapsto> ''on'', (''graphics'', ''show_fps'') \<mapsto> ''off'']"

definition wasd_keys :: "string \<Rightarrow> bool" where
  "wasd_keys s = (s = ''w'' \<or> s = ''a'' \<or> s = ''s'' \<or> s = ''d'')"

definition no_resolutions :: "string \<Rightarrow> string list" where
  "no_resolutions aspect_ratio = []"

definition initial_menu :: menu where
  "initial_menu = InputGraphicsSoundMenu empty_world"

definition sound_settings_menu :: menu where
  "sound_settings_menu = initial_menu\<lparr>curr_state := SOUND_SETTINGS\<rparr>"

definition graphics_settings_menu :: menu where
  "graphics_settings_menu = initial_menu\<lparr>curr_state := GRAPHICS_SETTINGS\<rparr>"

definition example_registry :: "UIState \<rightharpoonup> UI" where
  "example_registry = game_state_to_ui wasd_keys no_resolutions Map.empty"

definition no_interactions :: "UIState \<Rightarrow> (nat \<times> interaction) list" where
  "no_interactions ui_state = []"

text \<open>A frame in which the user chooses an option without separator in the resolution
  dropdown, the second widget of the graphics screen.\<close>

definition choose_bad_resolution :: "UIState \<Rightarrow> (nat \<times> interaction) list" where
  "choose_bad_resolution ui_state =
    (if ui_state = GRAPHICS_SETTINGS then [(1, Choose ''1280960'')] else [])"

text \<open>Frames in which the user clicks QUIT, the fifth widget of the main menu, and RESUME,
  the second.\<close>

definition click_quit :: "UIState \<Rightarrow> (nat \<times> interaction) list" where
  "click_quit ui_state = (if ui_state = MAIN_MENU then [(4, Click)] else [])"

definition click_resume :: "UIState \<Rightarrow> (nat \<times> interaction) list" where
  "click_resume ui_state = (if ui_state = MAIN_MENU then [(1, Click)] else [])"

section \<open>Properties\<close>

lemma push_back_all_append: "push_back_all acc xs = acc @ xs"
  by (induction xs arbitrary: acc) simp_all

text \<open>
  C1. For every state \<open>S\<close> the screens of a frame are \<open>S\<close> followed by the dependencies of
  \<open>S\<close>, with no state twice. The dependencies are empty for the main menu, the settings
  menu and the about screen, and are the settings menu alone for each of the five settings
  screens. The function is total on the enumeration and has no error value.
\<close>

theorem render_set_is_state_then_dependencies:
  "uis_to_render S = [S] @ get_ui_dependencies S
   \<and> distinct (uis_to_render S)
   \<and> get_ui_dependencies S =
       (if S \<in> {PROGRAM_SETTINGS, INPUT_SETTINGS, SOUND_SETTINGS, GRAPHICS_SETTINGS,
                 ADVANCED_SETTINGS}
        then [SETTINGS_MENU] else [])
   \<and> get_ui_dependencies MAIN_MENU = []
   \<and> get_ui_dependencies SETTINGS_MENU = []
   \<and> get_ui_dependencies ABOUT = []"
  by (cases S) (simp_all add: uis_to_render_def push_back_all_append)

subsection \<open>Buttons of the main menu and of the settings menu\<close>

text \<open>
  C2. The menu is constructed in the state \<open>MAIN_MENU\<close>. In any state of the menu, the
  click callback of the main menu's SETTINGS button returns with \<open>curr_state\<close> set to
  \<open>PROGRAM_SETTINGS\<close>; the click callback of the settings menu's BACK button returns with
  \<open>curr_state\<close> set to \<open>MAIN_MENU\<close>; the click callback of QUIT leaves \<open>curr_state\<close> as it
  was and sets the window's close flag; the click callback of RESUME sets \<open>enabled\<close> to
  false and leaves \<open>curr_state\<close> as it was.
\<close>

theorem main_menu_buttons:
  "curr_state (InputGraphicsSoundMenu w) = MAIN_MENU
   \<and> (\<exists>m'. click ''SETTINGS'' create_main_menu_ui m = Some (None, m')
           \<and> curr_state m' = PROGRAM_SETTINGS)
   \<and> (\<exists>m'. click ''BACK'' create_settings_menu_ui m = Some (None, m')
           \<and> curr_state m' = MAIN_MENU)
   \<and> (\<exists>m'. click ''QUIT'' create_main_menu_ui m = Some (None, m')
           \<and> curr_state m' = curr_state m \<and> window_should_close m')
   \<and> (\<exists>m'. click ''RESUME'' create_main_menu_ui m = Some (None, m')
           \<and> \<not> enabled m' \<and> curr_state m' = curr_state m)"
  by (simp add: click_def create_main_menu_ui_def create_settings_menu_ui_def returns_def
      on_click_settings_def on_back_clicked_def on_game_quit_def on_program_start_def
      queue_sound_def glfwSetWindowShouldClose_def InputGraphicsSoundMenu_def logger_info_def
      apply_config_logic_def)

subsection \<open>The pointer position\<close>




text \<open>The rounding on some numbers: a third, a tenth, a tie that goes to the even
  neighbour, the largest \<^verbatim>\<open>float\<close> and the overflow beyond it, and two ties among the
  subnormal numbers.\<close>

lemma rounding_examples:
  "to_float (1 / 3) = Some (11184811 / 33554432)
   \<and> to_double (1 / 10) = Some (3602879701896397 / 36028797018963968)
   \<and> to_float 16777217 = Some 16777216
   \<and> to_float 16777219 = Some 16777220
   \<and> to_float (- 16777219) = Some (- 16777220)
   \<and> to_float ((2 ^ 24 - 1) * 2 ^ 104) = Some ((2 ^ 24 - 1) * 2 ^ 104)
   \<and> to_float (2 ^ 128) = None
   \<and> to_float (1 / 2 ^ 150) = Some 0
   \<and> to_float (3 / 2 ^ 150) = Some (1 / 2 ^ 148)"
  by code_simp




subsection \<open>The selected index of a dropdown\<close>

lemma std_find_absent: "v \<notin> set vec \<Longrightarrow> std_find vec v = length vec"
  by (induction vec) auto

lemma std_find_first:
  "v \<in> set vec \<Longrightarrow>
     std_find vec v < length vec \<and> vec ! std_find vec v = v
     \<and> (\<forall>j < std_find vec v. vec ! j \<noteq> v)"
proof (induction vec)
  case Nil
  then show ?case by simp
next
  case (Cons x xs)
  show ?case
  proof (cases "x = v")
    case True
    then show ?thesis by simp
  next
    case False
    with Cons have IH: "std_find xs v < length xs" "xs ! std_find xs v = v"
      "\<forall>j < std_find xs v. xs ! j \<noteq> v"
      by auto
    have "(x # xs) ! j \<noteq> v" if "j < Suc (std_find xs v)" for j
      using that False IH(3) by (cases j) simp_all
    with False IH show ?thesis
      by simp
  qed
qed

lemma sint_narrow: "n < 2 ^ 31 \<Longrightarrow> sint (word_of_nat n :: 32 word) = int n"
proof -
  assume n: "n < 2 ^ 31"
  then have "n < 2 ^ 32" by simp
  then have "take_bit 32 n = n"
    by (simp only: take_bit_nat_eq_self_iff)
  moreover have "signed_take_bit 31 (int n) = int n"
    by (rule signed_take_bit_int_eq_self) (use n in simp_all)
  ultimately show ?thesis
    by (simp add: signed_of_nat)
qed

text \<open>
  What \<^verbatim>\<open>get_index_or_default\<close> returns for a vector of fewer than \<open>2^31\<close> options: the
  first position of the value, and 0 when the value is not an option.
\<close>

lemma get_index_or_default_first_or_zero:
  assumes "length vec < 2 ^ 31"
  shows "get_index_or_default v vec = (if v \<in> set vec then int (std_find vec v) else 0)"
proof (cases "v \<in> set vec")
  case True
  then have lt: "std_find vec v < length vec" by (simp add: std_find_first)
  from lt assms have "std_find vec v < 2 ^ 31" by (rule less_trans)
  then have "sint (word_of_nat (std_find vec v) :: 32 word) = int (std_find vec v)"
    by (rule sint_narrow)
  moreover from lt have "std_find vec v \<noteq> length vec" by simp
  ultimately show ?thesis
    using True unfolding get_index_or_default_def Let_def
    by (simp only: if_True if_False not_False_eq_True simp_thms)
next
  case False
  then have "std_find vec v = length vec" by (rule std_find_absent)
  with False show ?thesis
    unfolding get_index_or_default_def Let_def by (simp only: if_True if_False simp_thms)
qed

lemma get_index_or_default_examples:
  "get_index_or_default ''off'' [''on'', ''off''] = 1
   \<and> get_index_or_default (value_or None ''off'') [''on'', ''off''] = 1
   \<and> get_index_or_default ''zz'' [''on'', ''off''] = 0"
  by (simp add: get_index_or_default_def value_or_def)

text \<open>
  The resolution, fullscreen and wireframe dropdowns get the index of their own
  configuration value, or of their default. The show fps and show pos dropdowns get the
  index of the wireframe dropdown.
\<close>

lemma dropdown_indices:
  "dropdown_index ''resolution'' (create_graphics_settings_ui gar cfg) =
     Some (get_index_or_default
             (value_or (get_value cfg ''graphics'' ''resolution'') ''1280x720'')
             (if gar ''16:9'' = [] then [''1920x1080''] else gar ''16:9''))
   \<and> dropdown_index ''fullscreen'' (create_graphics_settings_ui gar cfg) =
     Some (get_index_or_default
             (value_or (get_value cfg ''graphics'' ''fullscreen'') ''off'') on_off_options)
   \<and> dropdown_index ''wireframe'' (create_graphics_settings_ui gar cfg) =
     Some (get_index_or_default
             (value_or (get_value cfg ''graphics'' ''wireframe'') ''off'') on_off_options)
   \<and> dropdown_index ''show fps'' (create_graphics_settings_ui gar cfg) =
     dropdown_index ''wireframe'' (create_graphics_settings_ui gar cfg)
   \<and> dropdown_index ''show pos'' (create_graphics_settings_ui gar cfg) =
     dropdown_index ''wireframe'' (create_graphics_settings_ui gar cfg)"
  by (simp add: dropdown_index_def create_graphics_settings_ui_def Let_def)

text \<open>
  C4. The claim is that every dropdown starts at the index of its own configuration value
  in its option list. With wireframe \<open>on\<close> and show fps \<open>off\<close> in the configuration, the
  show fps dropdown, whose callback writes the key \<open>show_fps\<close> of section \<open>graphics\<close>,
  starts at index 0, the index of \<open>on\<close>, while the index of its own value \<open>off\<close> in its
  options is 1.
\<close>

theorem show_fps_dropdown_starts_at_wireframe_index:
  "dropdown_index ''show fps''
     (create_graphics_settings_ui no_resolutions wireframe_on_show_fps_off) = Some 0
   \<and> dropdown_options ''show fps''
     (create_graphics_settings_ui no_resolutions wireframe_on_show_fps_off) = Some [''on'', ''off'']
   \<and> get_value wireframe_on_show_fps_off ''graphics'' ''show_fps'' = Some ''off''
   \<and> get_index_or_default ''off'' [''on'', ''off''] = 1
   \<and> (\<exists>m'. choose_option ''show fps''
              (create_graphics_settings_ui no_resolutions wireframe_on_show_fps_off)
              ''on'' empty_world = Some (None, m')
           \<and> config_values m' (''graphics'', ''show_fps'') = Some ''on'')"
  by (simp add: dropdown_index_def dropdown_options_def choose_option_def
      create_graphics_settings_ui_def Let_def get_index_or_default_def value_or_def get_value_def
      on_off_options_def wireframe_on_show_fps_off_def no_resolutions_def returns_def
      show_fps_on_click_def set_value_def)

subsection \<open>The options of the resolution dropdown\<close>

text \<open>
  C8. When the query for the resolutions of aspect ratio 16:9 returns nothing, the options
  of the resolution dropdown are the single string 1920x1080; otherwise they are what the
  query returned.
\<close>

theorem resolution_options_fallback:
  "dropdown_options ''resolution'' (create_graphics_settings_ui get_available_resolutions cfg) =
     Some (if get_available_resolutions ''16:9'' = [] then [''1920x1080'']
           else get_available_resolutions ''16:9'')"
  by (simp add: dropdown_options_def create_graphics_settings_ui_def Let_def)

subsection \<open>Choosing a resolution\<close>

lemma string_find_None: "string_find s c = None \<longleftrightarrow> c \<notin> set s"
  by (induction s) auto

lemma string_find_Some:
  "c \<in> set s \<Longrightarrow> string_find s c = Some (length (takeWhile (\<lambda>y. y \<noteq> c) s))"
  by (induction s) auto

lemma take_length_takeWhile: "take (length (takeWhile P s)) s = takeWhile P s"
  by (induction s) auto

lemma drop_Suc_length_takeWhile: "drop (Suc (length (takeWhile P s))) s = tl (dropWhile P s)"
  by (induction s) auto

lemma stoi_examples:
  "stoi ''1280'' = Inr 1280 \<and> stoi ''720'' = Inr 720
   \<and> stoi '' -12ab'' = Inr (- 12)
   \<and> stoi ''a'' = Inl (Invalid_argument ''stoi'')
   \<and> stoi [] = Inl (Invalid_argument ''stoi'')
   \<and> stoi ''99999999999'' = Inl (Out_of_range ''stoi'')"
  by (simp add: stoi_def isspace_def isdigit_def digits_value_def)

text \<open>
  C5, as the claim states it, fails: the option \<open>axb\<close> contains the separator, the callback
  throws on the text before it, and the configuration has no resolution afterwards.
\<close>

theorem separator_alone_does_not_persist:
  "CHR ''x'' \<in> set ''axb''
   \<and> fst (resolution_dropdown_on_click ''axb'' empty_world) = Some (Invalid_argument ''stoi'')
   \<and> config_values (snd (resolution_dropdown_on_click ''axb'' empty_world))
       (''graphics'', ''resolution'') = None"
  by (simp add: resolution_dropdown_on_click_def Let_def stoi_def isspace_def isdigit_def
      queue_sound_def empty_world_def)

text \<open>
  C5, amended. For every option string given to the confirm callback of the resolution
  dropdown: when it has no \<open>x\<close>, the callback throws the invalid-argument error of its else
  branch and the configuration is as before. When it has an \<open>x\<close> and both the text before
  the first \<open>x\<close> and the text after it are read as an \<^verbatim>\<open>int\<close> by \<^verbatim>\<open>std::stoi\<close>, the
  callback returns and the string is stored as it is under the key \<open>resolution\<close> of section
  \<open>graphics\<close>, nothing else of the configuration changing. When it has an \<open>x\<close> and one of the
  two texts is not read, the callback throws the error of \<^verbatim>\<open>std::stoi\<close> (of the first text
  when both fail) and the configuration is as before.
\<close>

theorem resolution_persisted_when_both_sides_parse:
  "(CHR ''x'' \<notin> set option \<longrightarrow>
      fst (resolution_dropdown_on_click option m) =
        Some (Invalid_argument ''Input string is not in the correct format (e.g. 1280x960)'')
      \<and> config_values (snd (resolution_dropdown_on_click option m)) = config_values m)
   \<and> (CHR ''x'' \<in> set option \<longrightarrow>
       (case (stoi (takeWhile (\<lambda>c. c \<noteq> CHR ''x'') option),
              stoi (tl (dropWhile (\<lambda>c. c \<noteq> CHR ''x'') option))) of
          (Inr width, Inr height) \<Rightarrow>
            fst (resolution_dropdown_on_click option m) = None
            \<and> config_values (snd (resolution_dropdown_on_click option m)) =
                (config_values m)((''graphics'', ''resolution'') \<mapsto> option)
        | (Inr width, Inl e) \<Rightarrow>
            fst (resolution_dropdown_on_click option m) = Some e
            \<and> config_values (snd (resolution_dropdown_on_click option m)) = config_values m
        | (Inl e, _) \<Rightarrow>
            fst (resolution_dropdown_on_click option m) = Some e
            \<and> config_values (snd (resolution_dropdown_on_click option m)) = config_values m))"
proof (cases "CHR ''x'' \<in> set option")
  case True
  then have "string_find option (CHR ''x'') =
      Some (length (takeWhile (\<lambda>c. c \<noteq> CHR ''x'') option))"
    by (rule string_find_Some)
  with True show ?thesis
    by (simp add: resolution_dropdown_on_click_def Let_def take_length_takeWhile
        drop_Suc_length_takeWhile queue_sound_def set_value_def split: sum.splits)
next
  case False
  then have "string_find option (CHR ''x'') = None"
    by (simp add: string_find_None)
  with False show ?thesis
    by (simp add: resolution_dropdown_on_click_def Let_def queue_sound_def)
qed

theorem resolution_persisted_when_both_sides_parse_witness:
  "CHR ''x'' \<in> set ''1280x720''
   \<and> fst (resolution_dropdown_on_click ''1280x720'' empty_world) = None
   \<and> config_values (snd (resolution_dropdown_on_click ''1280x720'' empty_world)) =
       [(''graphics'', ''resolution'') \<mapsto> ''1280x720'']
   \<and> CHR ''x'' \<notin> set ''1280960''
   \<and> fst (resolution_dropdown_on_click ''1280960'' empty_world) =
       Some (Invalid_argument ''Input string is not in the correct format (e.g. 1280x960)'')
   \<and> config_values (snd (resolution_dropdown_on_click ''1280960'' empty_world)) = Map.empty"
  using resolution_persisted_when_both_sides_parse [of "''1280x720''" empty_world]
    resolution_persisted_when_both_sides_parse [of "''1280960''" empty_world]
  by (simp add: stoi_def isspace_def isdigit_def digits_value_def empty_world_def)

text \<open>
  Strings of one to nine decimal digits are read by \<^verbatim>\<open>std::stoi\<close>, so every option made
  of two such strings around an \<open>x\<close>, as the resolution query gives them, is stored.
\<close>

lemma isdigit_not_space_or_sign:
  "isdigit c \<Longrightarrow> \<not> isspace c \<and> c \<noteq> CHR ''-'' \<and> c \<noteq> CHR ''+'' \<and> c \<noteq> CHR ''x''"
  by (auto simp: isdigit_def isspace_def)

lemma digits_value_snoc:
  "digits_value (ds @ [c]) = 10 * digits_value ds + (of_char c - 48)"
  by (simp add: digits_value_def)

lemma digits_value_bound:
  "\<forall>c \<in> set ds. isdigit c \<Longrightarrow> digits_value ds < 10 ^ length ds"
proof (induction ds rule: rev_induct)
  case Nil
  then show ?case by (simp add: digits_value_def)
next
  case (snoc c ds)
  then have IH: "digits_value ds < 10 ^ length ds" by simp
  from snoc.prems have "isdigit c" by simp
  then have "(of_char c :: nat) \<le> 57" unfolding isdigit_def by (rule conjunct2)
  then have "(of_char c :: nat) - 48 \<le> 9" by arith
  with IH show ?case by (simp add: digits_value_snoc)
qed

lemma stoi_digits:
  assumes "ds \<noteq> []" and "\<forall>c \<in> set ds. isdigit c" and "length ds \<le> 9"
  shows "stoi ds = Inr (int (digits_value ds))"
proof -
  from assms(1) obtain c cs where ds: "ds = c # cs" by (cases ds) auto
  with assms(2) have c: "\<not> isspace c" "c \<noteq> CHR ''-''" "c \<noteq> CHR ''+''"
    using isdigit_not_space_or_sign [of c] by simp_all
  from c ds have skip: "dropWhile isspace ds = ds" by simp
  from assms(2) have run: "takeWhile isdigit ds = ds" by (simp add: takeWhile_eq_all_conv)
  have "digits_value ds < 10 ^ length ds" using assms(2) by (rule digits_value_bound)
  also have "(10::nat) ^ length ds \<le> 10 ^ 9" using assms(3) by (rule power_increasing) simp
  finally have "int (digits_value ds) \<le> 2147483647" by simp
  moreover have "- 2147483648 \<le> int (digits_value ds)" by simp
  ultimately have range: "\<not> (int (digits_value ds) < - 2147483648
      \<or> 2147483647 < int (digits_value ds))"
    by simp
  from c ds have sign: "(case ds of [] \<Rightarrow> False | c # _ \<Rightarrow> c = CHR ''-'') = False"
    by simp
  from c ds have rest:
    "(case ds of [] \<Rightarrow> [] | c # cs \<Rightarrow> if c = CHR ''-'' \<or> c = CHR ''+'' then cs else ds) = ds"
    by simp
  show ?thesis
    unfolding stoi_def Let_def skip sign rest run
    using assms(1) range by (simp only: if_False)
qed

lemma resolution_of_digits_persisted:
  assumes "w \<noteq> []" "h \<noteq> []" "\<forall>c \<in> set w. isdigit c" "\<forall>c \<in> set h. isdigit c"
    and "length w \<le> 9" "length h \<le> 9"
  shows "resolution_dropdown_on_click (w @ ''x'' @ h) m =
           (None, set_value ''graphics'' ''resolution'' (w @ ''x'' @ h) (queue_sound UI_CLICK m))"
proof -
  from assms(3) have no_x: "\<forall>y \<in> set w. y \<noteq> CHR ''x''"
    using isdigit_not_space_or_sign by blast
  then have "takeWhile (\<lambda>y. y \<noteq> CHR ''x'') (w @ ''x'' @ h) = w"
    by (induction w) simp_all
  then have pos: "string_find (w @ ''x'' @ h) (CHR ''x'') = Some (length w)"
    using string_find_Some [of "CHR ''x''" "w @ ''x'' @ h"] by simp
  from assms have "stoi w = Inr (int (digits_value w))" "stoi h = Inr (int (digits_value h))"
    by (simp_all add: stoi_digits)
  with pos show ?thesis
    by (simp add: resolution_dropdown_on_click_def Let_def)
qed

subsection \<open>Key bindings\<close>

text \<open>
  What the closure of \<^verbatim>\<open>create_key_on_confirm_function\<close> does with a text, for every key
  string, validity check, text and state: a valid text is stored under section \<open>input\<close> and
  the key string with a click sound and no warning; an invalid one adds one warning and
  leaves the configuration, \<open>curr_state\<close>, \<open>enabled\<close> and the sound queue as they were.
\<close>

lemma key_on_confirm_effects:
  "(valid v \<longrightarrow>
        config_values (create_key_on_confirm_function valid key_str v m) =
          (config_values m)((''input'', key_str) \<mapsto> v)
        \<and> sound_queue (create_key_on_confirm_function valid key_str v m) =
            sound_queue m @ [UI_CLICK]
        \<and> logged_warnings (create_key_on_confirm_function valid key_str v m) = logged_warnings m
        \<and> curr_state (create_key_on_confirm_function valid key_str v m) = curr_state m
        \<and> enabled (create_key_on_confirm_function valid key_str v m) = enabled m)
   \<and> (\<not> valid v \<longrightarrow>
        logged_warnings (create_key_on_confirm_function valid key_str v m) =
          logged_warnings m @
            [v @ '' is not a valid key string, not setting it in the config, use a proper value.'']
        \<and> config_values (create_key_on_confirm_function valid key_str v m) = config_values m
        \<and> curr_state (create_key_on_confirm_function valid key_str v m) = curr_state m
        \<and> enabled (create_key_on_confirm_function valid key_str v m) = enabled m
        \<and> sound_queue (create_key_on_confirm_function valid key_str v m) = sound_queue m)"
  by (simp add: create_key_on_confirm_function_def queue_sound_def set_value_def logger_warn_def)

text \<open>Seven rows of the input settings screen give the closure the key of their own
  binding.\<close>

lemma rows_with_their_own_key:
  "confirm ''move forward'' (create_input_settings_ui valid cfg) v m =
     Some (None, create_key_on_confirm_function valid ''forward'' v m)
   \<and> confirm ''move backward'' (create_input_settings_ui valid cfg) v m =
     Some (None, create_key_on_confirm_function valid ''back'' v m)
   \<and> confirm ''move left'' (create_input_settings_ui valid cfg) v m =
     Some (None, create_key_on_confirm_function valid ''left'' v m)
   \<and> confirm ''move right'' (create_input_settings_ui valid cfg) v m =
     Some (None, create_key_on_confirm_function valid ''right'' v m)
   \<and> confirm ''move down'' (create_input_settings_ui valid cfg) v m =
     Some (None, create_key_on_confirm_function valid ''down'' v m)
   \<and> confirm ''slow move'' (create_input_settings_ui valid cfg) v m =
     Some (None, create_key_on_confirm_function valid ''slow_move'' v m)
   \<and> confirm ''fast move'' (create_input_settings_ui valid cfg) v m =
     Some (None, create_key_on_confirm_function valid ''fast_move'' v m)"
  by (simp add: confirm_def create_input_settings_ui_def returns_def)

text \<open>The boxes of the rows "fire" and "jump" print the text, whatever it is, and do nothing
  else.\<close>

lemma fire_and_jump_only_print:
  "confirm ''fire'' (create_input_settings_ui valid cfg) v m =
     Some (None, m\<lparr>stdout := stdout m @ [v]\<rparr>)
   \<and> confirm ''jump'' (create_input_settings_ui valid cfg) v m =
     Some (None, m\<lparr>stdout := stdout m @ [v]\<rparr>)"
  by (simp add: confirm_def create_input_settings_ui_def returns_def on_confirm_def
      cout_line_def)

text \<open>
  C6. The claim is that a valid key string submitted to a key binding input box of the
  input settings screen is stored under section \<open>input\<close> and the key of that binding, and
  that an invalid one is warned about. With a key check that accepts \<open>w\<close> and \<open>a\<close> and
  rejects \<open>zz\<close>, in a world where nothing has happened: \<open>w\<close> submitted to the box of the
  row "move up" is stored under the key \<open>left\<close>, the key under which the box of the row
  "move left" stores \<open>a\<close>, and under no key of its own; \<open>w\<close> submitted to the box of the
  row "fire" is printed and not stored; \<open>zz\<close> submitted to the box of the row "fire" is
  printed and no warning is logged.
\<close>

theorem move_up_confirm_stored_under_left_key:
  "wasd_keys ''w'' \<and> wasd_keys ''a'' \<and> \<not> wasd_keys ''zz''
   \<and> (\<exists>m'. confirm ''move up'' (create_input_settings_ui wasd_keys Map.empty) ''w''
              empty_world = Some (None, m')
           \<and> config_values m' = [(''input'', ''left'') \<mapsto> ''w'']
           \<and> config_values m' (''input'', ''up'') = None)
   \<and> (\<exists>m'. confirm ''move left'' (create_input_settings_ui wasd_keys Map.empty) ''a''
              empty_world = Some (None, m')
           \<and> config_values m' = [(''input'', ''left'') \<mapsto> ''a''])
   \<and> (\<exists>m'. confirm ''fire'' (create_input_settings_ui wasd_keys Map.empty) ''w''
              empty_world = Some (None, m')
           \<and> config_values m' = Map.empty \<and> sound_queue m' = [] \<and> stdout m' = [''w''])
   \<and> (\<exists>m'. confirm ''fire'' (create_input_settings_ui wasd_keys Map.empty) ''zz''
              empty_world = Some (None, m')
           \<and> config_values m' = Map.empty \<and> logged_warnings m' = [] \<and> stdout m' = [''zz''])"
  by (simp add: confirm_def create_input_settings_ui_def returns_def wasd_keys_def
      create_key_on_confirm_function_def queue_sound_def set_value_def on_confirm_def
      cout_line_def empty_world_def)

text \<open>
  C9. The input box of the row "move up" runs the closure made for the key string \<open>left\<close>,
  the one that the input box of the row "move left" runs. A valid key string confirmed in
  it is stored under the key \<open>left\<close> of section \<open>input\<close>, no other key is written, and
  the value under the key \<open>up\<close> stays as it was. Of two valid confirms in the two boxes,
  in either order, the later one is what the key \<open>left\<close> holds.
\<close>

theorem move_up_writes_left_key:
  "confirm ''move up'' (create_input_settings_ui valid cfg) v m =
     Some (None, create_key_on_confirm_function valid ''left'' v m)
   \<and> confirm ''move left'' (create_input_settings_ui valid cfg) v m =
     Some (None, create_key_on_confirm_function valid ''left'' v m)
   \<and> (valid v \<longrightarrow>
        config_values (create_key_on_confirm_function valid ''left'' v m) =
          (config_values m)((''input'', ''left'') \<mapsto> v)
        \<and> config_values (create_key_on_confirm_function valid ''left'' v m) (''input'', ''up'') =
            config_values m (''input'', ''up''))
   \<and> (valid v \<and> valid v' \<longrightarrow>
        config_values (create_key_on_confirm_function valid ''left'' v'
            (create_key_on_confirm_function valid ''left'' v m)) (''input'', ''left'') = Some v')"
  by (simp add: confirm_def create_input_settings_ui_def returns_def
      create_key_on_confirm_function_def queue_sound_def set_value_def)

theorem move_up_writes_left_key_witness:
  "wasd_keys ''w'' \<and> wasd_keys ''a''
   \<and> confirm ''move up'' (create_input_settings_ui wasd_keys Map.empty) ''w'' empty_world =
       Some (None, create_key_on_confirm_function wasd_keys ''left'' ''w'' empty_world)
   \<and> config_values (create_key_on_confirm_function wasd_keys ''left'' ''w'' empty_world) =
       [(''input'', ''left'') \<mapsto> ''w'']
   \<and> config_values (create_key_on_confirm_function wasd_keys ''left'' ''a''
        (create_key_on_confirm_function wasd_keys ''left'' ''w'' empty_world))
        (''input'', ''left'') = Some ''a''"
  using move_up_writes_left_key [of wasd_keys Map.empty "''w''" empty_world "''a''"]
  by (simp add: wasd_keys_def empty_world_def)

subsection \<open>The order in which the screens of a frame are processed\<close>

lemma registry_total: "\<exists>ui. game_state_to_ui valid gar cfg u = Some ui"
  by (cases u) (simp_all add: game_state_to_ui_def)

lemma process_screens_calls:
  "(\<forall>u \<in> set us. registry u \<noteq> None) \<Longrightarrow>
     prefix (fst (process_screens registry acts us m)) us
     \<and> (us \<noteq> [] \<longrightarrow> fst (process_screens registry acts us m) \<noteq> [])
     \<and> (fst (snd (process_screens registry acts us m)) = None \<longrightarrow>
          fst (process_screens registry acts us m) = us)"
proof (induction us arbitrary: m)
  case Nil
  then show ?case by simp
next
  case (Cons u us)
  from Cons.prems obtain ui where ui: "registry u = Some ui" by auto
  from Cons.prems have rest: "\<forall>u \<in> set us. registry u \<noteq> None" by simp
  obtain e m' where r: "process_and_queue_render_ui ui (acts u) m = (e, m')"
    by (cases "process_and_queue_render_ui ui (acts u) m")
  show ?case
  proof (cases e)
    case None
    obtain calls r' where p: "process_screens registry acts us m' = (calls, r')"
      by (cases "process_screens registry acts us m'")
    from Cons.IH [OF rest, of m'] p
    have "prefix calls us" "fst r' = None \<longrightarrow> calls = us" by simp_all
    with ui r None p show ?thesis by simp
  next
    case (Some err)
    with ui r show ?thesis by simp
  qed
qed

text \<open>A screen whose processing throws is the last one of the frame, and what it returns is
  what the frame returns.\<close>

lemma process_screens_stops_at_throw:
  "registry u = Some ui \<Longrightarrow> fst (process_and_queue_render_ui ui (acts u) m) \<noteq> None \<Longrightarrow>
     process_screens registry acts (u # us) m = ([u], process_and_queue_render_ui ui (acts u) m)"
  by (cases "process_and_queue_render_ui ui (acts u) m") auto

lemma process_screens_goes_on:
  "registry u = Some ui \<Longrightarrow> process_and_queue_render_ui ui (acts u) m = (None, m') \<Longrightarrow>
     process_screens registry acts (u # us) m =
       (u # fst (process_screens registry acts us m'), snd (process_screens registry acts us m'))"
  by (simp split: prod.splits)

text \<open>
  C7, as the claim states it, fails: with the sound settings active and nothing clicked,
  the calls of the frame are for the sound settings screen first and the settings menu
  second, so the dependency is not processed before the active screen.
\<close>

theorem dependency_processed_after_active_screen:
  "curr_state sound_settings_menu = SOUND_SETTINGS
   \<and> get_ui_dependencies SOUND_SETTINGS = [SETTINGS_MENU]
   \<and> fst (process_and_queue_render_menu example_registry no_interactions sound_settings_menu) =
       [SOUND_SETTINGS, SETTINGS_MENU]
   \<and> \<not> processed_before SETTINGS_MENU SOUND_SETTINGS
        (fst (process_and_queue_render_menu example_registry no_interactions
           sound_settings_menu))"
  by (simp add: process_and_queue_render_menu_def uis_to_render_def sound_settings_menu_def
      initial_menu_def example_registry_def game_state_to_ui_def no_interactions_def
      processed_before_def InputGraphicsSoundMenu_def logger_info_def apply_config_logic_def)

text \<open>
  C7, amended. Each frame the processing call is made for the states of the render set in
  the order of the render set: first for the screen of the active state, then for the
  screens of its dependencies. When the call for the active screen throws, it is the only
  call of the frame, no dependency screen is processed, and the frame ends with that
  exception and the state that call left. When it returns, the calls of the frame are the
  whole render set, in its order. In every case the calls made are a beginning of the
  render set and the first is for the active screen; when no call throws they are the
  whole render set. In particular, when the active state is one of the five settings
  screens and no callback throws, the active screen is processed before the screen of the
  settings menu, and not after it.
\<close>

theorem active_screen_processed_first:
  "prefix (fst (process_and_queue_render_menu (game_state_to_ui valid gar cfg) acts m))
     (curr_state m # get_ui_dependencies (curr_state m))
   \<and> fst (process_and_queue_render_menu (game_state_to_ui valid gar cfg) acts m) \<noteq> []
   \<and> hd (fst (process_and_queue_render_menu (game_state_to_ui valid gar cfg) acts m)) =
       curr_state m
   \<and> (fst (snd (process_and_queue_render_menu (game_state_to_ui valid gar cfg) acts m)) = None
      \<longrightarrow> fst (process_and_queue_render_menu (game_state_to_ui valid gar cfg) acts m) =
            curr_state m # get_ui_dependencies (curr_state m))
   \<and> (fst (snd (process_and_queue_render_menu (game_state_to_ui valid gar cfg) acts m)) = None
      \<and> curr_state m \<in> {PROGRAM_SETTINGS, INPUT_SETTINGS, SOUND_SETTINGS, GRAPHICS_SETTINGS,
                         ADVANCED_SETTINGS}
      \<longrightarrow> processed_before (curr_state m) SETTINGS_MENU
            (fst (process_and_queue_render_menu (game_state_to_ui valid gar cfg) acts m))
          \<and> \<not> processed_before SETTINGS_MENU (curr_state m)
            (fst (process_and_queue_render_menu (game_state_to_ui valid gar cfg) acts m)))
   \<and> (game_state_to_ui valid gar cfg (curr_state m) = Some ui
      \<and> fst (process_and_queue_render_ui ui (acts (curr_state m)) m) \<noteq> None
      \<longrightarrow> process_and_queue_render_menu (game_state_to_ui valid gar cfg) acts m =
            ([curr_state m], process_and_queue_render_ui ui (acts (curr_state m)) m))
   \<and> (game_state_to_ui valid gar cfg (curr_state m) = Some ui
      \<and> fst (process_and_queue_render_ui ui (acts (curr_state m)) m) = None
      \<longrightarrow> fst (process_and_queue_render_menu (game_state_to_ui valid gar cfg) acts m) =
            curr_state m # get_ui_dependencies (curr_state m))"
proof -
  let ?reg = "game_state_to_ui valid gar cfg"
  let ?us = "curr_state m # get_ui_dependencies (curr_state m)"
  let ?calls = "fst (process_and_queue_render_menu ?reg acts m)"
  let ?first = "process_and_queue_render_ui ui (acts (curr_state m)) m"
  have all: "\<forall>u \<in> set ?us. ?reg u \<noteq> None"
    using registry_total [of valid gar cfg] by auto
  have eq: "process_and_queue_render_menu ?reg acts m = process_screens ?reg acts ?us m"
    by (simp add: process_and_queue_render_menu_def uis_to_render_def push_back_all_append)
  from process_screens_calls [OF all, of acts m] eq
  have p: "prefix ?calls ?us" and ne: "?calls \<noteq> []"
    and full: "fst (snd (process_and_queue_render_menu ?reg acts m)) = None \<longrightarrow> ?calls = ?us"
    by simp_all
  from p ne have h: "hd ?calls = curr_state m"
    by (cases ?calls) (auto simp: prefix_def simp del: process_screens.simps)
  have ord: "processed_before (curr_state m) SETTINGS_MENU ?us
      \<and> \<not> processed_before SETTINGS_MENU (curr_state m) ?us"
    if "curr_state m \<in> {PROGRAM_SETTINGS, INPUT_SETTINGS, SOUND_SETTINGS, GRAPHICS_SETTINGS,
                         ADVANCED_SETTINGS}"
    using that by (auto simp: processed_before_def)
  have stops: "process_and_queue_render_menu ?reg acts m = ([curr_state m], ?first)"
    if "?reg (curr_state m) = Some ui" "fst ?first \<noteq> None"
    unfolding eq using that by (rule process_screens_stops_at_throw)
  have goes_on: "?calls = ?us"
    if reg: "?reg (curr_state m) = Some ui" and ok: "fst ?first = None"
  proof -
    obtain m' where first: "?first = (None, m')" using ok by (cases ?first) auto
    have deps: "fst (process_screens ?reg acts (get_ui_dependencies (curr_state m)) m') =
        get_ui_dependencies (curr_state m)"
    proof (cases "get_ui_dependencies (curr_state m)")
      case Nil
      then show ?thesis by simp
    next
      case (Cons d ds)
      then have d: "d = SETTINGS_MENU" "ds = []" by (cases "curr_state m"; simp)+
      obtain sui where sui: "?reg SETTINGS_MENU = Some sui"
        using registry_total [of valid gar cfg SETTINGS_MENU] by auto
      show ?thesis
        unfolding Cons d using sui
        by (simp split: prod.splits option.splits)
    qed
    have "process_screens ?reg acts ?us m =
        (curr_state m # fst (process_screens ?reg acts (get_ui_dependencies (curr_state m)) m'),
         snd (process_screens ?reg acts (get_ui_dependencies (curr_state m)) m'))"
      using reg first by (rule process_screens_goes_on)
    with deps show ?thesis
      unfolding eq by simp
  qed
  from p h ne full ord stops goes_on show ?thesis by (intro conjI impI) auto
qed

theorem active_screen_processed_first_witness:
  "fst (snd (process_and_queue_render_menu (game_state_to_ui wasd_keys no_resolutions Map.empty)
      no_interactions sound_settings_menu)) = None
   \<and> curr_state sound_settings_menu = SOUND_SETTINGS
   \<and> fst (process_and_queue_render_menu (game_state_to_ui wasd_keys no_resolutions Map.empty)
        no_interactions sound_settings_menu) = [SOUND_SETTINGS, SETTINGS_MENU]
   \<and> processed_before SOUND_SETTINGS SETTINGS_MENU
       (fst (process_and_queue_render_menu (game_state_to_ui wasd_keys no_resolutions Map.empty)
          no_interactions sound_settings_menu))
   \<and> game_state_to_ui wasd_keys no_resolutions Map.empty (curr_state graphics_settings_menu) =
       Some (create_graphics_settings_ui no_resolutions Map.empty)
   \<and> fst (process_and_queue_render_ui (create_graphics_settings_ui no_resolutions Map.empty)
        (choose_bad_resolution (curr_state graphics_settings_menu)) graphics_settings_menu) \<noteq> None
   \<and> fst (snd (process_and_queue_render_menu (game_state_to_ui wasd_keys no_resolutions Map.empty)
        choose_bad_resolution graphics_settings_menu)) \<noteq> None
   \<and> fst (process_and_queue_render_menu (game_state_to_ui wasd_keys no_resolutions Map.empty)
        choose_bad_resolution graphics_settings_menu) = [GRAPHICS_SETTINGS]"
  using active_screen_processed_first [of wasd_keys no_resolutions Map.empty no_interactions
      sound_settings_menu create_sound_settings_ui]
    active_screen_processed_first [of wasd_keys no_resolutions Map.empty choose_bad_resolution
      graphics_settings_menu "create_graphics_settings_ui no_resolutions Map.empty"]
  by (simp add: process_and_queue_render_menu_def uis_to_render_def sound_settings_menu_def
      graphics_settings_menu_def initial_menu_def game_state_to_ui_def no_interactions_def
      choose_bad_resolution_def processed_before_def InputGraphicsSoundMenu_def logger_info_def
      apply_config_logic_def create_graphics_settings_ui_def Let_def no_resolutions_def
      resolution_dropdown_on_click_def)

subsection \<open>The flag \<open>enabled\<close>\<close>

lemma resolution_enabled:
  "enabled (snd (resolution_dropdown_on_click option m)) = enabled m"
  by (simp add: resolution_dropdown_on_click_def Let_def queue_sound_def set_value_def
      split: option.splits sum.splits)

lemma key_on_confirm_enabled:
  "enabled (create_key_on_confirm_function valid key_str v m) = enabled m"
  by (simp add: create_key_on_confirm_function_def queue_sound_def set_value_def logger_warn_def)

lemmas callback_defs =
  returns_def on_hover_def dropdown_on_hover_def on_confirm_def on_program_start_def
  on_click_settings_def on_click_about_def on_game_quit_def on_back_clicked_def
  about_on_back_clicked_def on_apply_clicked_def on_save_clicked_def player_on_click_def
  input_on_click_def sound_on_click_def graphics_on_click_def network_on_click_def
  sens_on_click_def graphics_on_click_settings_def
  fullscreen_on_click_def wireframe_on_click_def fov_on_confirm_def max_fps_on_confirm_def
  show_fps_on_click_def show_pos_on_click_def queue_sound_def set_value_def
  apply_config_logic_def save_to_file_def glfwSetWindowShouldClose_def logger_warn_def
  cout_line_def

lemma main_menu_enabled:
  "e \<in> set create_main_menu_ui \<Longrightarrow> \<not> (button_label e = Some ''RESUME'' \<and> a = Click) \<Longrightarrow>
     enabled (snd (run_callback e a m)) = enabled m"
  by (cases a) (auto simp: create_main_menu_ui_def button_label_def callback_defs)

lemma about_enabled:
  "e \<in> set create_about_ui \<Longrightarrow> enabled (snd (run_callback e a m)) = enabled m"
  by (cases a) (auto simp: create_about_ui_def callback_defs)

lemma settings_menu_enabled:
  "e \<in> set create_settings_menu_ui \<Longrightarrow> enabled (snd (run_callback e a m)) = enabled m"
  by (cases a) (auto simp: create_settings_menu_ui_def callback_defs)

lemma player_settings_enabled:
  "e \<in> set create_player_settings_ui \<Longrightarrow> enabled (snd (run_callback e a m)) = enabled m"
  by (cases a) (auto simp: create_player_settings_ui_def callback_defs)

lemma input_settings_enabled:
  "e \<in> set (create_input_settings_ui valid cfg) \<Longrightarrow>
     enabled (snd (run_callback e a m)) = enabled m"
  by (cases a) (auto simp: create_input_settings_ui_def key_on_confirm_enabled callback_defs)

lemma sound_settings_enabled:
  "e \<in> set create_sound_settings_ui \<Longrightarrow> enabled (snd (run_callback e a m)) = enabled m"
  by (cases a) (auto simp: create_sound_settings_ui_def)

lemma graphics_settings_enabled:
  "e \<in> set (create_graphics_settings_ui gar cfg) \<Longrightarrow>
     enabled (snd (run_callback e a m)) = enabled m"
  by (cases a)
    (auto simp: create_graphics_settings_ui_def Let_def resolution_enabled callback_defs)

lemma advanced_settings_enabled:
  "e \<in> set create_advanced_settings_ui \<Longrightarrow> enabled (snd (run_callback e a m)) = enabled m"
  by (cases a) (auto simp: create_advanced_settings_ui_def)

lemma resume_only_in_main_menu:
  "game_state_to_ui valid gar cfg u = Some ui \<Longrightarrow> e \<in> set ui \<Longrightarrow>
     button_label e = Some ''RESUME'' \<Longrightarrow>
     u = MAIN_MENU \<and> run_callback e Click = returns on_program_start"
  by (cases u)
    (auto simp: game_state_to_ui_def create_main_menu_ui_def create_about_ui_def
      create_settings_menu_ui_def create_player_settings_ui_def create_input_settings_ui_def
      create_sound_settings_ui_def create_graphics_settings_ui_def
      create_advanced_settings_ui_def button_label_def Let_def)

lemma screen_callback_enabled:
  assumes "game_state_to_ui valid gar cfg u = Some ui" and "e \<in> set ui"
    and "\<not> (button_label e = Some ''RESUME'' \<and> a = Click)"
  shows "enabled (snd (run_callback e a m)) = enabled m"
proof (cases u)
  case MAIN_MENU
  with assms show ?thesis by (simp add: game_state_to_ui_def main_menu_enabled)
next
  case SETTINGS_MENU
  with assms show ?thesis by (auto simp: game_state_to_ui_def settings_menu_enabled)
next
  case PROGRAM_SETTINGS
  with assms show ?thesis by (auto simp: game_state_to_ui_def player_settings_enabled)
next
  case INPUT_SETTINGS
  with assms show ?thesis by (auto simp: game_state_to_ui_def input_settings_enabled)
next
  case SOUND_SETTINGS
  with assms show ?thesis by (auto simp: game_state_to_ui_def sound_settings_enabled)
next
  case GRAPHICS_SETTINGS
  with assms show ?thesis by (auto simp: game_state_to_ui_def graphics_settings_enabled)
next
  case ADVANCED_SETTINGS
  with assms show ?thesis by (auto simp: game_state_to_ui_def advanced_settings_enabled)
next
  case ABOUT
  with assms show ?thesis by (auto simp: game_state_to_ui_def about_enabled)
qed

lemma screen_callback_never_enables:
  assumes "game_state_to_ui valid gar cfg u = Some ui" and "e \<in> set ui"
  shows "enabled (snd (run_callback e a m)) \<longrightarrow> enabled m"
proof (cases "button_label e = Some ''RESUME'' \<and> a = Click")
  case True
  with resume_only_in_main_menu [OF assms] show ?thesis
    by (simp add: returns_def on_program_start_def)
next
  case False
  with screen_callback_enabled [OF assms] show ?thesis by simp
qed

lemma render_ui_never_enables:
  assumes "\<And>e a m. e \<in> set ui \<Longrightarrow> enabled (snd (run_callback e a m)) \<longrightarrow> enabled m"
  shows "enabled (snd (process_and_queue_render_ui ui ias m)) \<longrightarrow> enabled m"
proof (induction ias arbitrary: m)
  case Nil
  then show ?case by simp
next
  case (Cons ia ias)
  obtain i a where ia: "ia = (i, a)" by (cases ia)
  show ?case
  proof (cases "i < length ui")
    case True
    obtain e m' where r: "run_callback (ui ! i) a m = (e, m')"
      by (cases "run_callback (ui ! i) a m")
    from True have "ui ! i \<in> set ui" by simp
    from assms [OF this, of a m] r have step: "enabled m' \<longrightarrow> enabled m" by simp
    show ?thesis
    proof (cases e)
      case None
      with ia True r step Cons.IH [of m'] show ?thesis by simp
    next
      case (Some err)
      with ia True r step show ?thesis by simp
    qed
  next
    case False
    with ia Cons.IH [of m] show ?thesis by simp
  qed
qed

lemma render_ui_keeps_enabled:
  assumes "\<And>i a m. (i, a) \<in> set ias \<Longrightarrow> i < length ui \<Longrightarrow>
             enabled (snd (run_callback (ui ! i) a m)) = enabled m"
  shows "enabled (snd (process_and_queue_render_ui ui ias m)) = enabled m"
  using assms
proof (induction ias arbitrary: m)
  case Nil
  then show ?case by simp
next
  case (Cons ia ias)
  obtain i a where ia: "ia = (i, a)" by (cases ia)
  have IH: "enabled (snd (process_and_queue_render_ui ui ias m')) = enabled m'" for m'
    by (rule Cons.IH) (simp add: Cons.prems)
  show ?case
  proof (cases "i < length ui")
    case True
    obtain e m' where r: "run_callback (ui ! i) a m = (e, m')"
      by (cases "run_callback (ui ! i) a m")
    from Cons.prems [of i a m] ia True r have step: "enabled m' = enabled m" by simp
    show ?thesis
    proof (cases e)
      case None
      with ia True r step IH [of m'] show ?thesis by simp
    next
      case (Some err)
      with ia True r step show ?thesis by simp
    qed
  next
    case False
    with ia IH [of m] show ?thesis by simp
  qed
qed

lemma process_screens_never_enables:
  assumes "\<And>u ui ias m. registry u = Some ui \<Longrightarrow>
             enabled (snd (process_and_queue_render_ui ui ias m)) \<longrightarrow> enabled m"
  shows "enabled (snd (snd (process_screens registry acts us m))) \<longrightarrow> enabled m"
proof (induction us arbitrary: m)
  case Nil
  then show ?case by simp
next
  case (Cons u us)
  show ?case
  proof (cases "registry u")
    case None
    with Cons.IH [of m] show ?thesis by simp
  next
    case (Some ui)
    obtain e m' where r: "process_and_queue_render_ui ui (acts u) m = (e, m')"
      by (cases "process_and_queue_render_ui ui (acts u) m")
    from assms [OF Some, of "acts u" m] r have step: "enabled m' \<longrightarrow> enabled m" by simp
    show ?thesis
    proof (cases e)
      case None
      obtain calls r' where p: "process_screens registry acts us m' = (calls, r')"
        by (cases "process_screens registry acts us m'")
      with Cons.IH [of m'] have "enabled (snd r') \<longrightarrow> enabled m'" by simp
      with Some r None p step show ?thesis by simp
    next
      case (Some err)
      with \<open>registry u = Some ui\<close> r step show ?thesis by simp
    qed
  qed
qed

lemma process_screens_keeps_enabled:
  assumes "\<And>u ui m. u \<in> set us \<Longrightarrow> registry u = Some ui \<Longrightarrow>
             enabled (snd (process_and_queue_render_ui ui (acts u) m)) = enabled m"
  shows "enabled (snd (snd (process_screens registry acts us m))) = enabled m"
  using assms
proof (induction us arbitrary: m)
  case Nil
  then show ?case by simp
next
  case (Cons u us)
  have IH: "enabled (snd (snd (process_screens registry acts us m'))) = enabled m'" for m'
    by (rule Cons.IH) (simp add: Cons.prems)
  show ?case
  proof (cases "registry u")
    case None
    with IH [of m] show ?thesis by simp
  next
    case (Some ui)
    obtain e m' where r: "process_and_queue_render_ui ui (acts u) m = (e, m')"
      by (cases "process_and_queue_render_ui ui (acts u) m")
    from Cons.prems [of u ui m] Some r have step: "enabled m' = enabled m" by simp
    show ?thesis
    proof (cases e)
      case None
      obtain calls r' where p: "process_screens registry acts us m' = (calls, r')"
        by (cases "process_screens registry acts us m'")
      with IH [of m'] have "enabled (snd r') = enabled m'" by simp
      with Some r None p step show ?thesis by simp
    next
      case (Some err)
      with \<open>registry u = Some ui\<close> r step show ?thesis by simp
    qed
  qed
qed

text \<open>
  C10. Of the callbacks held by the widgets of the eight screens, whatever the interaction
  and its text, only the click callback of a button labelled RESUME changes \<open>enabled\<close>;
  such a button is on the main menu only and its click callback sets \<open>enabled\<close> to false.
  The three lambdas that no widget holds leave \<open>enabled\<close> as it was. A frame of
  \<^verbatim>\<open>process_and_queue_render_menu\<close> never turns \<open>enabled\<close> from false to true, whatever
  the interactions, and leaves it as it was when no interaction with a processed screen is
  a click on RESUME. The constructor gives \<open>enabled\<close> its first value, true.
\<close>

theorem enabled_cleared_only_by_resume:
  "(game_state_to_ui valid gar cfg u = Some ui \<and> e \<in> set ui
      \<and> \<not> (button_label e = Some ''RESUME'' \<and> a = Click) \<longrightarrow>
      enabled (snd (run_callback e a m)) = enabled m)
   \<and> (game_state_to_ui valid gar cfg u = Some ui \<and> e \<in> set ui
      \<and> button_label e = Some ''RESUME'' \<longrightarrow>
      u = MAIN_MENU \<and> \<not> enabled (snd (run_callback e Click m)))
   \<and> enabled (settings_on_click m) = enabled m
   \<and> enabled (username_on_confirm s m) = enabled m
   \<and> enabled (empty_on_click s m) = enabled m
   \<and> (enabled (snd (snd (process_and_queue_render_menu (game_state_to_ui valid gar cfg) acts m)))
        \<longrightarrow> enabled m)
   \<and> (\<not> list_ex (resume_clicked (game_state_to_ui valid gar cfg) acts)
            (uis_to_render (curr_state m)) \<longrightarrow>
        enabled (snd (snd (process_and_queue_render_menu (game_state_to_ui valid gar cfg) acts m)))
          = enabled m)
   \<and> enabled (InputGraphicsSoundMenu w)"
proof -
  let ?reg = "game_state_to_ui valid gar cfg"
  have init: "enabled (InputGraphicsSoundMenu w)"
    by (simp add: InputGraphicsSoundMenu_def logger_info_def apply_config_logic_def)
  have other: "?reg u = Some ui \<and> e \<in> set ui
      \<and> \<not> (button_label e = Some ''RESUME'' \<and> a = Click) \<longrightarrow>
      enabled (snd (run_callback e a m)) = enabled m"
    using screen_callback_enabled [of valid gar cfg u ui e a m] by blast
  have resume: "?reg u = Some ui \<and> e \<in> set ui \<and> button_label e = Some ''RESUME'' \<longrightarrow>
      u = MAIN_MENU \<and> \<not> enabled (snd (run_callback e Click m))"
    using resume_only_in_main_menu [of valid gar cfg u ui e]
    by (auto simp: returns_def on_program_start_def)
  have unattached: "enabled (settings_on_click m) = enabled m"
    "enabled (username_on_confirm s m) = enabled m"
    "enabled (empty_on_click s m) = enabled m"
    by (simp_all add: settings_on_click_def username_on_confirm_def empty_on_click_def
        queue_sound_def cout_line_def)
  have never: "enabled (snd (snd (process_and_queue_render_menu ?reg acts m))) \<longrightarrow> enabled m"
    unfolding process_and_queue_render_menu_def
    by (rule process_screens_never_enables, rule render_ui_never_enables)
      (rule screen_callback_never_enables)
  have same: "enabled (snd (snd (process_and_queue_render_menu ?reg acts m))) = enabled m"
    if nr: "\<not> list_ex (resume_clicked ?reg acts) (uis_to_render (curr_state m))"
    unfolding process_and_queue_render_menu_def
  proof (rule process_screens_keeps_enabled, rule render_ui_keeps_enabled)
    fix u' ui' i a' m'
    assume u': "u' \<in> set (uis_to_render (curr_state m))"
      and reg: "?reg u' = Some ui'" and ia: "(i, a') \<in> set (acts u')" and i: "i < length ui'"
    from nr u' have "\<not> resume_clicked ?reg acts u'"
      by (simp add: list_ex_iff)
    with reg ia i have "\<not> (button_label (ui' ! i) = Some ''RESUME'' \<and> a' = Click)"
      by (auto simp: resume_clicked_def list_ex_iff)
    moreover from i have "ui' ! i \<in> set ui'" by simp
    ultimately show "enabled (snd (run_callback (ui' ! i) a' m')) = enabled m'"
      using screen_callback_enabled [OF reg] by blast
  qed
  from other resume unattached never same init show ?thesis by (intro conjI impI) simp_all
qed

theorem enabled_cleared_only_by_resume_witness:
  "game_state_to_ui wasd_keys no_resolutions Map.empty MAIN_MENU = Some create_main_menu_ui
   \<and> enabled initial_menu
   \<and> create_main_menu_ui ! 4 \<in> set create_main_menu_ui
   \<and> button_label (create_main_menu_ui ! 4) = Some ''QUIT''
   \<and> enabled (snd (run_callback (create_main_menu_ui ! 4) Click initial_menu))
   \<and> create_main_menu_ui ! 1 \<in> set create_main_menu_ui
   \<and> button_label (create_main_menu_ui ! 1) = Some ''RESUME''
   \<and> \<not> enabled (snd (run_callback (create_main_menu_ui ! 1) Click initial_menu))
   \<and> \<not> list_ex (resume_clicked (game_state_to_ui wasd_keys no_resolutions Map.empty) click_quit)
         (uis_to_render (curr_state initial_menu))
   \<and> enabled (snd (snd (process_and_queue_render_menu
         (game_state_to_ui wasd_keys no_resolutions Map.empty) click_quit initial_menu)))
   \<and> list_ex (resume_clicked (game_state_to_ui wasd_keys no_resolutions Map.empty) click_resume)
         (uis_to_render (curr_state initial_menu))
   \<and> \<not> enabled (snd (snd (process_and_queue_render_menu
         (game_state_to_ui wasd_keys no_resolutions Map.empty) click_resume initial_menu)))"
  using enabled_cleared_only_by_resume [of wasd_keys no_resolutions Map.empty MAIN_MENU
      create_main_menu_ui "create_main_menu_ui ! 4" Click initial_menu "[]" click_quit]
    enabled_cleared_only_by_resume [of wasd_keys no_resolutions Map.empty MAIN_MENU
      create_main_menu_ui "create_main_menu_ui ! 1" Click initial_menu "[]" click_resume]
  by (simp add: game_state_to_ui_def create_main_menu_ui_def button_label_def initial_menu_def
      InputGraphicsSoundMenu_def logger_info_def apply_config_logic_def empty_world_def
      returns_def on_game_quit_def on_program_start_def queue_sound_def
      glfwSetWindowShouldClose_def resume_clicked_def click_quit_def click_resume_def
      uis_to_render_def process_and_queue_render_menu_def)

end
